theory Spec2Isabelle
  imports Main
begin

section \<open>Errors raised by the Gateway\<close>

text \<open>
  A Gateway call either resolves with a response or rejects. The source distinguishes
  rejections by \<^verbatim>\<open>e instanceof HttpStatusCodeError\<close> and then by \<^verbatim>\<open>e.statusCode\<close>;
  every other thrown value is some other error.
\<close>

datatype error =
    HttpStatusCodeError (statusCode: int) (body: string)
  | OtherError string

section \<open>EventSubChannelRedemptionAddSubscription\<close>

text \<open>
  The two registration calls of \<^verbatim>\<open>_apiClient.eventSub\<close> that the subscription can
  issue, with the arguments they are given.
\<close>

datatype 'opts eventSubCall =
    SubscribeToChannelRedemptionAddEventsForReward string string 'opts
  | SubscribeToChannelRedemptionAddEvents string 'opts

text \<open>
  The client (\<^verbatim>\<open>EventSubBase\<close>) as far as the subscription uses it: the API client
  answering a registration call, and the outcome of awaiting
  \<^verbatim>\<open>_getTransportOptions()\<close>, which the base class computes from the client.
\<close>

record ('opts, 'sub) EventSubBase =
  apiClient :: "'opts eventSubCall \<Rightarrow> error + 'sub"
  transportOptions :: "error + 'opts"

text \<open>
  The instance: \<^verbatim>\<open>handler\<close> and \<^verbatim>\<open>client\<close> are stored by the super constructor,
  \<^verbatim>\<open>_userId\<close> and the optional \<^verbatim>\<open>_rewardId\<close> are the private readonly
  parameter properties (\<open>None\<close> is \<^verbatim>\<open>undefined\<close>).
\<close>

record ('h, 'opts, 'sub) EventSubChannelRedemptionAddSubscription =
  handler :: 'h
  client :: "('opts, 'sub) EventSubBase"
  userId :: string
  rewardId :: "string option"

definition new_EventSubChannelRedemptionAddSubscription ::
  "'h \<Rightarrow> ('opts, 'sub) EventSubBase \<Rightarrow> string \<Rightarrow> string option
    \<Rightarrow> ('h, 'opts, 'sub) EventSubChannelRedemptionAddSubscription" where
  "new_EventSubChannelRedemptionAddSubscription h c u r =
     \<lparr>handler = h, client = c, userId = u, rewardId = r\<rparr>"

text \<open>The \<^verbatim>\<open>id\<close> getter: a template literal over \<^verbatim>\<open>_userId\<close> only.\<close>

definition subscription_id ::
  "('h, 'opts, 'sub) EventSubChannelRedemptionAddSubscription \<Rightarrow> string" where
  "subscription_id this =
     ''channel.channel_points_custom_reward_redemption.add.'' @ userId this"

text \<open>The typed event: the raw payload and the API client it was built with.\<close>

datatype ('d, 'c) EventSubChannelRedemptionAddEvent =
  EventSubChannelRedemptionAddEvent (eventData: 'd) (eventClient: 'c)

definition transformData ::
  "('h, 'opts, 'sub) EventSubChannelRedemptionAddSubscription \<Rightarrow> 'd
    \<Rightarrow> ('d, 'opts eventSubCall \<Rightarrow> error + 'sub) EventSubChannelRedemptionAddEvent" where
  "transformData this d = EventSubChannelRedemptionAddEvent d (apiClient (client this))"

text \<open>
  JavaScript truthiness of a \<^verbatim>\<open>string | undefined\<close>: \<^verbatim>\<open>undefined\<close> and the empty
  string are falsy, every other string is truthy.
\<close>

fun truthy :: "string option \<Rightarrow> bool" where
  "truthy None = False"
| "truthy (Some s) = (s \<noteq> [])"

text \<open>
  \<^verbatim>\<open>_subscribe\<close>. The result is the list of registration calls issued, in order, and
  the value the promise settles with. The arguments of a call are evaluated before the
  call, so a rejected \<^verbatim>\<open>_getTransportOptions()\<close> rejects \<^verbatim>\<open>_subscribe\<close> with no
  call issued.
\<close>

definition subscribe ::
  "('h, 'opts, 'sub) EventSubChannelRedemptionAddSubscription
    \<Rightarrow> 'opts eventSubCall list \<times> (error + 'sub)" where
  "subscribe this =
     (if truthy (rewardId this) then
        (case transportOptions (client this) of
           Inl e \<Rightarrow> ([], Inl e)
         | Inr opts \<Rightarrow>
             let call = SubscribeToChannelRedemptionAddEventsForReward
                          (userId this) (the (rewardId this)) opts
             in ([call], apiClient (client this) call))
      else
        (case transportOptions (client this) of
           Inl e \<Rightarrow> ([], Inl e)
         | Inr opts \<Rightarrow>
             let call = SubscribeToChannelRedemptionAddEvents (userId this) opts
             in ([call], apiClient (client this) call)))"

section \<open>HelixSubscriptionApi\<close>

datatype TwitchApiCallType = Kraken | Helix | Auth | Custom

text \<open>A query value is a string or, for \<^verbatim>\<open>user_id\<close>, an array of strings.\<close>

datatype queryValue = QString string | QStrings "string list"

text \<open>
  The options object handed to \<^verbatim>\<open>callApi\<close> or to a paginated request. The \<^verbatim>\<open>type\<close>
  property is optional: the paginated requests leave it out.
\<close>

record TwitchApiCallOptions =
  url :: string
  scope :: string
  callType :: "TwitchApiCallType option"
  query :: "(string \<times> queryValue) list"

text \<open>
  The response body: \<^verbatim>\<open>data\<close>, the cursor of the optional \<^verbatim>\<open>pagination\<close> object and,
  for the endpoints that report it, \<^verbatim>\<open>total\<close>.
\<close>

record 'raw HelixResponse =
  data :: "'raw list"
  pagination :: "string option"
  total :: "nat option"

record 'raw ApiClient =
  callApi :: "TwitchApiCallOptions \<Rightarrow> error + 'raw HelixResponse"

text \<open>
  Modelled from the spec: the entity classes \<^verbatim>\<open>HelixSubscription\<close>,
  \<^verbatim>\<open>HelixSubscriptionEvent\<close> and \<^verbatim>\<open>HelixUserSubscription\<close> are not among the sources.
  A domain entity is the typed decoded form of one raw item plus a back-reference to the
  Gateway; the constructor stores both. \<^verbatim>\<open>HelixUserSubscription\<close> is built from
  \<^verbatim>\<open>result.data[0]\<close>, which is \<^verbatim>\<open>undefined\<close> (\<open>None\<close>) when the array is empty.
\<close>

datatype ('raw, 'c) HelixSubscription =
  HelixSubscription (subscriptionData: 'raw) (subscriptionClient: 'c)

datatype ('raw, 'c) HelixSubscriptionEvent =
  HelixSubscriptionEvent (subscriptionEventData: 'raw) (subscriptionEventClient: 'c)

datatype ('raw, 'c) HelixUserSubscription =
  HelixUserSubscription (userSubscriptionData: "'raw option") (userSubscriptionClient: 'c)

record 'e HelixPaginatedResult =
  resultData :: "'e list"
  resultCursor :: "string option"


text \<open>
  Modelled from the spec: \<^verbatim>\<open>createPaginatedResult\<close> and
  \<^verbatim>\<open>createPaginatedResultWithTotal\<close> are imported from \<^verbatim>\<open>../HelixPaginatedResult\<close>,
  which is not among the sources. They are the Result Page Decoder: one raw page response
  becomes the list of domain entities, one per raw item, with the continuation cursor
  (and the total, for total-aware endpoints).
\<close>

definition createPaginatedResult ::
  "'raw HelixResponse \<Rightarrow> ('raw \<Rightarrow> 'c \<Rightarrow> 'e) \<Rightarrow> 'c \<Rightarrow> 'e HelixPaginatedResult" where
  "createPaginatedResult response type c =
     \<lparr>resultData = map (\<lambda>d. type d c) (data response),
      resultCursor = pagination response\<rparr>"



text \<open>
  \<^verbatim>\<open>extractUserId\<close> comes from \<^verbatim>\<open>twitch-common\<close>; every method below takes it as its
  first parameter. The options object of each \<^verbatim>\<open>callApi\<close> call is a definition of its
  own, named after the method. \<^verbatim>\<open>arr[0]\<close> of JavaScript is \<open>index0\<close>: \<^verbatim>\<open>undefined\<close>
  on the empty array.
\<close>

definition index0 :: "'a list \<Rightarrow> 'a option" where
  "index0 xs = (case xs of [] \<Rightarrow> None | x # _ \<Rightarrow> Some x)"




definition getSubscriptionsForUsers_options ::
  "('u \<Rightarrow> string) \<Rightarrow> 'u \<Rightarrow> 'u list \<Rightarrow> TwitchApiCallOptions" where
  "getSubscriptionsForUsers_options extractUserId broadcaster users =
     \<lparr>url = ''subscriptions'',
      scope = ''channel:read:subscriptions'',
      callType = Some Helix,
      query = [(''broadcaster_id'', QString (extractUserId broadcaster)),
               (''user_id'', QStrings (map extractUserId users))]\<rparr>"

definition getSubscriptionsForUsers ::
  "('u \<Rightarrow> string) \<Rightarrow> 'raw ApiClient \<Rightarrow> 'u \<Rightarrow> 'u list
    \<Rightarrow> error + ('raw, 'raw ApiClient) HelixSubscription list" where
  "getSubscriptionsForUsers extractUserId c broadcaster users =
     (case callApi c (getSubscriptionsForUsers_options extractUserId broadcaster users) of
        Inl e \<Rightarrow> Inl e
      | Inr result \<Rightarrow> Inr (map (\<lambda>d. HelixSubscription d c) (data result)))"

text \<open>\<^verbatim>\<open>list.length ? list[0] : null\<close>; \<open>None\<close> is \<^verbatim>\<open>null\<close>.\<close>

definition getSubscriptionForUser ::
  "('u \<Rightarrow> string) \<Rightarrow> 'raw ApiClient \<Rightarrow> 'u \<Rightarrow> 'u
    \<Rightarrow> error + ('raw, 'raw ApiClient) HelixSubscription option" where
  "getSubscriptionForUser extractUserId c broadcaster user =
     (case getSubscriptionsForUsers extractUserId c broadcaster [user] of
        Inl e \<Rightarrow> Inl e
      | Inr list \<Rightarrow> Inr (if length list \<noteq> 0 then Some (list ! 0) else None))"

text \<open>The \<^verbatim>\<open>by\<close> parameter of \<^verbatim>\<open>_getSubscriptionEvents\<close> and the query key it names.\<close>

datatype eventsBy = By_broadcaster_id | By_id

fun eventsBy_key :: "eventsBy \<Rightarrow> string" where
  "eventsBy_key By_broadcaster_id = ''broadcaster_id''"
| "eventsBy_key By_id = ''id''"

definition getSubscriptionEvents_options :: "eventsBy \<Rightarrow> string \<Rightarrow> TwitchApiCallOptions" where
  "getSubscriptionEvents_options by ident =
     \<lparr>url = ''subscriptions/events'',
      scope = ''channel:read:subscriptions'',
      callType = Some Helix,
      query = [(eventsBy_key by, QString ident)]\<rparr>"

definition getSubscriptionEvents ::
  "'raw ApiClient \<Rightarrow> eventsBy \<Rightarrow> string
    \<Rightarrow> error + ('raw, 'raw ApiClient) HelixSubscriptionEvent HelixPaginatedResult" where
  "getSubscriptionEvents c by ident =
     (case callApi c (getSubscriptionEvents_options by ident) of
        Inl e \<Rightarrow> Inl e
      | Inr result \<Rightarrow> Inr (createPaginatedResult result HelixSubscriptionEvent c))"

definition getSubscriptionEventsForBroadcaster ::
  "('u \<Rightarrow> string) \<Rightarrow> 'raw ApiClient \<Rightarrow> 'u
    \<Rightarrow> error + ('raw, 'raw ApiClient) HelixSubscriptionEvent HelixPaginatedResult" where
  "getSubscriptionEventsForBroadcaster extractUserId c broadcaster =
     getSubscriptionEvents c By_broadcaster_id (extractUserId broadcaster)"

text \<open>
  \<^verbatim>\<open>events.data[0] ?? null\<close>: an entity is an object, never \<^verbatim>\<open>null\<close> or
  \<^verbatim>\<open>undefined\<close>, so the right operand is taken exactly when index 0 is out of range.
\<close>

definition getSubscriptionEventById ::
  "'raw ApiClient \<Rightarrow> string \<Rightarrow> error + ('raw, 'raw ApiClient) HelixSubscriptionEvent option" where
  "getSubscriptionEventById c ident =
     (case getSubscriptionEvents c By_id ident of
        Inl e \<Rightarrow> Inl e
      | Inr events \<Rightarrow>
          Inr (case index0 (resultData events) of None \<Rightarrow> None | Some ev \<Rightarrow> Some ev))"

text \<open>
  \<^verbatim>\<open>checkUserSubscription\<close>: the \<^verbatim>\<open>try\<close> block is the \<open>Inr\<close> branch, the
  \<^verbatim>\<open>catch\<close> block the \<open>Inl\<close> branch, which returns \<^verbatim>\<open>null\<close> on a status-coded
  error with code 404 and rethrows \<^verbatim>\<open>e\<close> otherwise.
\<close>

definition checkUserSubscription_options ::
  "('u \<Rightarrow> string) \<Rightarrow> 'u \<Rightarrow> 'u \<Rightarrow> TwitchApiCallOptions" where
  "checkUserSubscription_options extractUserId user broadcaster =
     \<lparr>url = ''subscriptions/user'',
      scope = ''user:read:subscriptions'',
      callType = Some Helix,
      query = [(''broadcaster_id'', QString (extractUserId broadcaster)),
               (''user_id'', QString (extractUserId user))]\<rparr>"

definition checkUserSubscription ::
  "('u \<Rightarrow> string) \<Rightarrow> 'raw ApiClient \<Rightarrow> 'u \<Rightarrow> 'u
    \<Rightarrow> error + ('raw, 'raw ApiClient) HelixUserSubscription option" where
  "checkUserSubscription extractUserId c user broadcaster =
     (case callApi c (checkUserSubscription_options extractUserId user broadcaster) of
        Inr result \<Rightarrow> Inr (Some (HelixUserSubscription (index0 (data result)) c))
      | Inl e \<Rightarrow>
          (case e of
             HttpStatusCodeError code msg \<Rightarrow> if code = 404 then Inr None else Inl e
           | OtherError msg \<Rightarrow> Inl e))"

section \<open>Paginated collection traversal\<close>

text \<open>
  Modelled from the spec: the traversal engine (\<^verbatim>\<open>HelixPaginatedRequest\<close>) is not among
  the sources. A Page is \<^verbatim>\<open>{items, cursor, total}\<close>: an ordered sequence of items, an
  opaque continuation cursor that is absent on the last page, and an optional total.
\<close>

record 'a Page =
  items :: "'a list"
  cursor :: "string option"
  pageTotal :: "nat option"

text \<open>
  Modelled from the spec: the Gateway performs one request per call. Here it is a step
  function on its own state \<open>'s\<close>, given the cursor to continue from (absent on the first
  call).
\<close>

type_synonym ('s, 'a) Gateway = "'s \<Rightarrow> string option \<Rightarrow> (error + 'a Page) \<times> 's"

text \<open>
  Modelled from the spec: \<^verbatim>\<open>fetchAll\<close> repeatedly calls the Gateway with an advancing
  cursor until a page reports no continuation cursor or an empty item set; it
  concatenates items across pages in page-arrival order; if any page reports a total, the
  last-seen value is the total returned; a Gateway failure propagates unchanged. The
  loop may run forever on a Gateway that never ends the collection, so the result is
  optional. Beside the outcome, the result holds the Gateway's final state and the
  cursors of the calls made, in order.
\<close>

partial_function (option) fetchAll_loop ::
  "('s, 'a) Gateway \<Rightarrow> 's \<Rightarrow> string option \<Rightarrow> 'a list \<Rightarrow> nat option \<Rightarrow> string option list
    \<Rightarrow> ((error + 'a list \<times> nat option) \<times> 's \<times> string option list) option" where
  "fetchAll_loop gateway s cur acc tot calls =
     (case gateway s cur of
        (Inl e, s') \<Rightarrow> Some (Inl e, s', calls @ [cur])
      | (Inr page, s') \<Rightarrow>
          (let acc' = acc @ items page;
               tot' = (case pageTotal page of Some t \<Rightarrow> Some t | None \<Rightarrow> tot)
           in if cursor page = None \<or> items page = []
              then Some (Inr (acc', tot'), s', calls @ [cur])
              else fetchAll_loop gateway s' (cursor page) acc' tot' (calls @ [cur])))"

definition fetchAll ::
  "('s, 'a) Gateway \<Rightarrow> 's
    \<Rightarrow> ((error + 'a list \<times> nat option) \<times> 's \<times> string option list) option" where
  "fetchAll gateway s = fetchAll_loop gateway s None [] None []"

text \<open>
  Modelled from the spec: the stub Gateway of the testable properties serves a given
  finite sequence of pages, one per call, whatever cursor it is asked for; its state is
  the pages not yet served, and a call with none left fails.
\<close>

definition stubGateway :: "('a Page list, 'a) Gateway" where
  "stubGateway ps cur =
     (case ps of
        [] \<Rightarrow> (Inl (OtherError ''no page left''), [])
      | p # rest \<Rightarrow> (Inr p, rest))"

text \<open>The total of a traversal: the last total any of its pages reported.\<close>

definition lastTotal :: "'a Page list \<Rightarrow> nat option" where
  "lastTotal ps =
     (case List.map_filter pageTotal ps of [] \<Rightarrow> None | ts \<Rightarrow> Some (last ts))"

section \<open>Properties of the redemption subscription\<close>

text \<open>
  C1. The claim: two redemption subscriptions with the same userId, one with a rewardId
  and one without, have distinct identities, and the identity of the one with the
  rewardId includes it. The \<^verbatim>\<open>id\<close> getter reads \<^verbatim>\<open>_userId\<close> only: for userId
  61369223, the instance with rewardId r1 and the instance without a rewardId have the
  same identity, which ends with the userId and does not mention r1.
\<close>

theorem redemption_id_collides_across_rewardId:
  "\<forall>h1 c1 h2 c2.
     subscription_id (new_EventSubChannelRedemptionAddSubscription h1 c1 ''61369223'' (Some ''r1''))
       = subscription_id (new_EventSubChannelRedemptionAddSubscription h2 c2 ''61369223'' None)
     \<and> subscription_id (new_EventSubChannelRedemptionAddSubscription h1 c1 ''61369223'' (Some ''r1''))
       = ''channel.channel_points_custom_reward_redemption.add.61369223''"
  by (simp add: subscription_id_def new_EventSubChannelRedemptionAddSubscription_def)

text \<open>
  C5. Identity derivation is deterministic: two instances constructed with the same
  userId and the same rewardId have the same identity string, whatever their handlers
  and clients; the string is the fixed prefix followed by the userId.
\<close>

theorem subscription_id_deterministic:
  "subscription_id (new_EventSubChannelRedemptionAddSubscription h1 c1 u r)
     = subscription_id (new_EventSubChannelRedemptionAddSubscription h2 c2 u r)
   \<and> subscription_id (new_EventSubChannelRedemptionAddSubscription h1 c1 u r)
     = ''channel.channel_points_custom_reward_redemption.add.'' @ u"
  by (simp add: subscription_id_def new_EventSubChannelRedemptionAddSubscription_def)

text \<open>
  C10. An instance constructed with the empty string as rewardId subscribes exactly as
  one constructed without a rewardId: the same calls and the same outcome. The only call
  it can issue is the general registration call, so the empty rewardId is never sent.
\<close>

theorem subscribe_empty_rewardId_as_absent:
  "subscribe (new_EventSubChannelRedemptionAddSubscription h c u (Some ''''))
     = subscribe (new_EventSubChannelRedemptionAddSubscription h c u None)
   \<and> fst (subscribe (new_EventSubChannelRedemptionAddSubscription h c u (Some '''')))
     = (case transportOptions c of
          Inl e \<Rightarrow> []
        | Inr opts \<Rightarrow> [SubscribeToChannelRedemptionAddEvents u opts])"
  by (simp add: subscribe_def new_EventSubChannelRedemptionAddSubscription_def Let_def
           split: sum.splits)

text \<open>
  C4, as stated, fails where the rewardId is present and empty: the instance with
  userId 61369223 and rewardId the empty string, on a client whose transport options
  resolve and whose API client answers every call with the call itself, issues the
  general registration call and not the reward-specific one.
\<close>

theorem subscribe_present_empty_rewardId_general_call:
  "fst (subscribe (new_EventSubChannelRedemptionAddSubscription ()
          \<lparr>apiClient = Inr, transportOptions = Inr ()\<rparr> ''61369223'' (Some '''')))
     \<noteq> [SubscribeToChannelRedemptionAddEventsForReward ''61369223'' '''' ()]
   \<and> subscribe (new_EventSubChannelRedemptionAddSubscription ()
          \<lparr>apiClient = Inr, transportOptions = Inr ()\<rparr> ''61369223'' (Some ''''))
     = ([SubscribeToChannelRedemptionAddEvents ''61369223'' ()],
        Inr (SubscribeToChannelRedemptionAddEvents ''61369223'' ()))"
  by (simp add: subscribe_def new_EventSubChannelRedemptionAddSubscription_def Let_def)

text \<open>
  C4, amended. Once the transport options have resolved to \<open>opts\<close>: when the rewardId
  is present and not the empty string, \<^verbatim>\<open>_subscribe\<close> issues exactly the reward-specific
  registration call with (userId, rewardId, opts) and settles with its answer; when the
  rewardId is absent or the empty string, it issues exactly the general registration
  call with (userId, opts) and settles with its answer. The handler has no influence.
\<close>

theorem subscribe_call_shape:
  assumes "transportOptions c = Inr opts"
  shows "(\<forall>rid. r = Some rid \<and> rid \<noteq> [] \<longrightarrow>
            subscribe (new_EventSubChannelRedemptionAddSubscription h c u r)
              = ([SubscribeToChannelRedemptionAddEventsForReward u rid opts],
                 apiClient c (SubscribeToChannelRedemptionAddEventsForReward u rid opts)))
       \<and> (r = None \<or> r = Some [] \<longrightarrow>
            subscribe (new_EventSubChannelRedemptionAddSubscription h c u r)
              = ([SubscribeToChannelRedemptionAddEvents u opts],
                 apiClient c (SubscribeToChannelRedemptionAddEvents u opts)))
       \<and> subscribe (new_EventSubChannelRedemptionAddSubscription h c u r)
           = subscribe (new_EventSubChannelRedemptionAddSubscription h' c u r)"
  using assms
  by (auto simp add: subscribe_def new_EventSubChannelRedemptionAddSubscription_def Let_def)

text \<open>
  The amended C4 at userId 61369223, once with rewardId r1 and once without a rewardId.
\<close>

theorem subscribe_call_shape_witness:
  "transportOptions \<lparr>apiClient = Inr, transportOptions = Inr ()\<rparr> = Inr ()
   \<and> subscribe (new_EventSubChannelRedemptionAddSubscription ()
        \<lparr>apiClient = Inr, transportOptions = Inr ()\<rparr> ''61369223'' (Some ''r1''))
       = ([SubscribeToChannelRedemptionAddEventsForReward ''61369223'' ''r1'' ()],
          Inr (SubscribeToChannelRedemptionAddEventsForReward ''61369223'' ''r1'' ()))
   \<and> subscribe (new_EventSubChannelRedemptionAddSubscription ()
        \<lparr>apiClient = Inr, transportOptions = Inr ()\<rparr> ''61369223'' None)
       = ([SubscribeToChannelRedemptionAddEvents ''61369223'' ()],
          Inr (SubscribeToChannelRedemptionAddEvents ''61369223'' ()))"
  using subscribe_call_shape
          [of "\<lparr>apiClient = Inr, transportOptions = Inr ()\<rparr>" "()" "Some ''r1''" "()"
              "''61369223''" "()"]
        subscribe_call_shape
          [of "\<lparr>apiClient = Inr, transportOptions = Inr ()\<rparr>" "()" "None" "()"
              "''61369223''" "()"]
  by simp

section \<open>Properties of the subscription API\<close>

text \<open>
  C2. When the Gateway call inside \<^verbatim>\<open>checkUserSubscription\<close> fails with a status-coded
  error whose status code is 404, the method returns null; when it fails with any other
  error (a status-coded error with another code, or an error that is not status-coded),
  that same error propagates to the caller.
\<close>

theorem checkUserSubscription_not_found_to_null:
  assumes "callApi c (checkUserSubscription_options extractUserId user broadcaster) = Inl e"
  shows "((\<exists>msg. e = HttpStatusCodeError 404 msg) \<longrightarrow>
            checkUserSubscription extractUserId c user broadcaster = Inr None)
       \<and> (\<not> (\<exists>msg. e = HttpStatusCodeError 404 msg) \<longrightarrow>
            checkUserSubscription extractUserId c user broadcaster = Inl e)"
  using assms
  by (cases e) (simp_all add: checkUserSubscription_def)

text \<open>
  C2 at three Gateways: one failing with status 404, one with status 401, one with an
  error that carries no status.
\<close>

theorem checkUserSubscription_not_found_to_null_witness:
  "checkUserSubscription id
      \<lparr>callApi = (\<lambda>_. Inl (HttpStatusCodeError 404 ''Not Found'')
                          :: error + unit HelixResponse)\<rparr>
      ''61369223'' ''125328655'' = Inr None
   \<and> checkUserSubscription id
      \<lparr>callApi = (\<lambda>_. Inl (HttpStatusCodeError 401 ''Unauthorized'')
                          :: error + unit HelixResponse)\<rparr>
      ''61369223'' ''125328655'' = Inl (HttpStatusCodeError 401 ''Unauthorized'')
   \<and> checkUserSubscription id
      \<lparr>callApi = (\<lambda>_. Inl (OtherError ''network'') :: error + unit HelixResponse)\<rparr>
      ''61369223'' ''125328655'' = Inl (OtherError ''network'')"
  using checkUserSubscription_not_found_to_null
          [of "\<lparr>callApi = (\<lambda>_. Inl (HttpStatusCodeError 404 ''Not Found'')
                          :: error + unit HelixResponse)\<rparr>" id "''61369223''" "''125328655''"
              "HttpStatusCodeError 404 ''Not Found''"]
        checkUserSubscription_not_found_to_null
          [of "\<lparr>callApi = (\<lambda>_. Inl (HttpStatusCodeError 401 ''Unauthorized'')
                          :: error + unit HelixResponse)\<rparr>" id "''61369223''" "''125328655''"
              "HttpStatusCodeError 401 ''Unauthorized''"]
        checkUserSubscription_not_found_to_null
          [of "\<lparr>callApi = (\<lambda>_. Inl (OtherError ''network'')
                          :: error + unit HelixResponse)\<rparr>" id "''61369223''" "''125328655''"
              "OtherError ''network''"]
  by simp

text \<open>
  C3. On a successful Gateway response, \<^verbatim>\<open>getSubscriptionForUser\<close> and
  \<^verbatim>\<open>getSubscriptionEventById\<close> return null exactly when the data list of the response
  is empty, and otherwise the entity decoded from its first item.
\<close>

theorem single_entity_lookups_null_iff_empty:
  "(callApi c (getSubscriptionsForUsers_options extractUserId broadcaster [user]) = Inr response
      \<longrightarrow> getSubscriptionForUser extractUserId c broadcaster user
            = Inr (case data response of [] \<Rightarrow> None | d # _ \<Rightarrow> Some (HelixSubscription d c))
          \<and> (getSubscriptionForUser extractUserId c broadcaster user = Inr None
               \<longleftrightarrow> data response = []))
   \<and> (callApi c (getSubscriptionEvents_options By_id ident) = Inr response
      \<longrightarrow> getSubscriptionEventById c ident
            = Inr (case data response of [] \<Rightarrow> None | d # _ \<Rightarrow> Some (HelixSubscriptionEvent d c))
          \<and> (getSubscriptionEventById c ident = Inr None \<longleftrightarrow> data response = []))"
  by (cases "data response")
     (simp_all add: getSubscriptionForUser_def getSubscriptionsForUsers_def
        getSubscriptionEventById_def getSubscriptionEvents_def createPaginatedResult_def
        index0_def)

text \<open>
  C3 at a Gateway answering with an empty data list and at one answering with the two
  raw items 7 and 8.
\<close>

theorem single_entity_lookups_null_iff_empty_witness:
  "getSubscriptionForUser id
      \<lparr>callApi = (\<lambda>_. Inr \<lparr>data = [], pagination = None, total = None\<rparr>
                          :: error + nat HelixResponse)\<rparr> ''125328655'' ''61369223''
     = Inr None
   \<and> getSubscriptionEventById
      \<lparr>callApi = (\<lambda>_. Inr \<lparr>data = [], pagination = None, total = None\<rparr>
                          :: error + nat HelixResponse)\<rparr> ''e1''
     = Inr None
   \<and> getSubscriptionForUser id
      \<lparr>callApi = (\<lambda>_. Inr \<lparr>data = [7, 8], pagination = None, total = None\<rparr>
                          :: error + nat HelixResponse)\<rparr> ''125328655'' ''61369223''
     = Inr (Some (HelixSubscription 7
         \<lparr>callApi = (\<lambda>_. Inr \<lparr>data = [7, 8], pagination = None, total = None\<rparr>)\<rparr>))
   \<and> getSubscriptionEventById
      \<lparr>callApi = (\<lambda>_. Inr \<lparr>data = [7, 8], pagination = None, total = None\<rparr>
                          :: error + nat HelixResponse)\<rparr> ''e1''
     = Inr (Some (HelixSubscriptionEvent 7
         \<lparr>callApi = (\<lambda>_. Inr \<lparr>data = [7, 8], pagination = None, total = None\<rparr>)\<rparr>))"
  using single_entity_lookups_null_iff_empty
          [of "\<lparr>callApi = (\<lambda>_. Inr \<lparr>data = [], pagination = None, total = None\<rparr>
                          :: error + nat HelixResponse)\<rparr>" id "''125328655''" "''61369223''"
              "\<lparr>data = [], pagination = None, total = None\<rparr>" "''e1''"]
        single_entity_lookups_null_iff_empty
          [of "\<lparr>callApi = (\<lambda>_. Inr \<lparr>data = [7, 8], pagination = None, total = None\<rparr>
                          :: error + nat HelixResponse)\<rparr>" id "''125328655''" "''61369223''"
              "\<lparr>data = [7, 8], pagination = None, total = None\<rparr>" "''e1''"]
  by simp

text \<open>
  C6. On a successful Gateway response, \<^verbatim>\<open>getSubscriptionsForUsers\<close> returns one
  decoded entity per raw item of the data list, in the same order, each carrying the
  client it was decoded with; an event produced by \<^verbatim>\<open>transformData\<close> carries the API
  client of the subscription's client.
\<close>

theorem entities_one_per_item_with_client:
  "(callApi c (getSubscriptionsForUsers_options extractUserId broadcaster users) = Inr response
      \<longrightarrow> getSubscriptionsForUsers extractUserId c broadcaster users
            = Inr (map (\<lambda>d. HelixSubscription d c) (data response))
          \<and> (\<exists>ents. getSubscriptionsForUsers extractUserId c broadcaster users = Inr ents
                \<and> length ents = length (data response)
                \<and> (\<forall>i < length (data response).
                      subscriptionData (ents ! i) = data response ! i
                      \<and> subscriptionClient (ents ! i) = c)))
   \<and> transformData this d = EventSubChannelRedemptionAddEvent d (apiClient (client this))
   \<and> eventClient (transformData this d) = apiClient (client this)"
  by (simp add: getSubscriptionsForUsers_def transformData_def)

text \<open>
  C6 at a Gateway answering with the raw items 7 and 8, and at a subscription whose
  API client is \<open>Inr\<close>.
\<close>

theorem entities_one_per_item_with_client_witness:
  "getSubscriptionsForUsers id
      \<lparr>callApi = (\<lambda>_. Inr \<lparr>data = [7, 8], pagination = None, total = None\<rparr>
                          :: error + nat HelixResponse)\<rparr> ''125328655'' [''61369223'', ''2'']
     = Inr [HelixSubscription 7
              \<lparr>callApi = (\<lambda>_. Inr \<lparr>data = [7, 8], pagination = None, total = None\<rparr>)\<rparr>,
            HelixSubscription 8
              \<lparr>callApi = (\<lambda>_. Inr \<lparr>data = [7, 8], pagination = None, total = None\<rparr>)\<rparr>]
   \<and> eventClient (transformData
        (new_EventSubChannelRedemptionAddSubscription ()
           \<lparr>apiClient = Inr, transportOptions = Inr ()\<rparr> ''61369223'' None) (5::nat)) = Inr"
  using entities_one_per_item_with_client
          [of "\<lparr>callApi = (\<lambda>_. Inr \<lparr>data = [7, 8], pagination = None, total = None\<rparr>
                          :: error + nat HelixResponse)\<rparr>" id "''125328655''"
              "[''61369223'', ''2'']"
              "\<lparr>data = [7, 8], pagination = None, total = None\<rparr>"
              "new_EventSubChannelRedemptionAddSubscription ()
                 \<lparr>apiClient = Inr, transportOptions = Inr ()\<rparr> ''61369223'' None" "5::nat"]
  by (simp add: new_EventSubChannelRedemptionAddSubscription_def)



text \<open>
  C9. When the Gateway call inside \<^verbatim>\<open>checkUserSubscription\<close> succeeds with an empty
  data list, the method does not return null: it returns a \<^verbatim>\<open>HelixUserSubscription\<close>
  built from the undefined first element.
\<close>

theorem checkUserSubscription_empty_data_not_null:
  assumes "callApi c (checkUserSubscription_options extractUserId user broadcaster) = Inr response"
    and "data response = []"
  shows "checkUserSubscription extractUserId c user broadcaster
           = Inr (Some (HelixUserSubscription None c))
       \<and> checkUserSubscription extractUserId c user broadcaster \<noteq> Inr None"
  using assms by (simp add: checkUserSubscription_def index0_def)

text \<open>C9 at a Gateway answering every call with an empty data list.\<close>

theorem checkUserSubscription_empty_data_not_null_witness:
  "checkUserSubscription id
      \<lparr>callApi = (\<lambda>_. Inr \<lparr>data = [], pagination = None, total = None\<rparr>
                          :: error + nat HelixResponse)\<rparr> ''61369223'' ''125328655''
     = Inr (Some (HelixUserSubscription None
         \<lparr>callApi = (\<lambda>_. Inr \<lparr>data = [], pagination = None, total = None\<rparr>)\<rparr>))"
  using checkUserSubscription_empty_data_not_null
          [of "\<lparr>callApi = (\<lambda>_. Inr \<lparr>data = [], pagination = None, total = None\<rparr>
                          :: error + nat HelixResponse)\<rparr>" id "''61369223''" "''125328655''"
              "\<lparr>data = [], pagination = None, total = None\<rparr>"]
  by simp

section \<open>Properties of the traversal\<close>

text \<open>
  On the stub Gateway the loop is followed page by page: a page that ends the traversal
  returns, a page that does not is followed by the call for the next one.
\<close>

lemma map_filter_Cons:
  "List.map_filter f (x # xs) = (case f x of None \<Rightarrow> [] | Some y \<Rightarrow> [y]) @ List.map_filter f xs"
  by (simp add: List.map_filter_def split: option.splits)

lemma fetchAll_loop_last_page:
  assumes "cursor p = None \<or> items p = []"
  shows "fetchAll_loop stubGateway (p # rest) cur acc tot calls
           = Some (Inr (acc @ items p, case pageTotal p of Some t \<Rightarrow> Some t | None \<Rightarrow> tot),
                   rest, calls @ [cur])"
  using assms
  by (subst fetchAll_loop.simps) (simp add: stubGateway_def Let_def)

lemma fetchAll_loop_next_page:
  assumes "cursor q \<noteq> None" and "items q \<noteq> []"
  shows "fetchAll_loop stubGateway (q # ps) cur acc tot calls
           = fetchAll_loop stubGateway ps (cursor q) (acc @ items q)
               (case pageTotal q of Some t \<Rightarrow> Some t | None \<Rightarrow> tot) (calls @ [cur])"
  using assms
  by (subst fetchAll_loop.simps) (auto simp add: stubGateway_def Let_def)

lemma fetchAll_loop_stub:
  assumes "\<forall>q \<in> set qs. cursor q \<noteq> None \<and> items q \<noteq> []"
    and "cursor p = None \<or> items p = []"
  shows "fetchAll_loop stubGateway (qs @ p # rest) cur acc tot calls
           = Some (Inr (acc @ concat (map items (qs @ [p])),
                        case List.map_filter pageTotal (qs @ [p]) of
                          [] \<Rightarrow> tot | t # ts \<Rightarrow> Some (last (t # ts))),
                   rest, calls @ cur # map cursor qs)"
  using assms
proof (induction qs arbitrary: cur acc tot calls)
  case Nil
  then show ?case
    by (simp add: fetchAll_loop_last_page List.map_filter_def split: option.splits)
next
  case (Cons q qs)
  have step: "fetchAll_loop stubGateway ((q # qs) @ p # rest) cur acc tot calls
           = fetchAll_loop stubGateway (qs @ p # rest) (cursor q) (acc @ items q)
               (case pageTotal q of Some t \<Rightarrow> Some t | None \<Rightarrow> tot) (calls @ [cur])"
    using Cons.prems(1) by (simp add: fetchAll_loop_next_page)
  have ih: "fetchAll_loop stubGateway (qs @ p # rest) (cursor q) (acc @ items q)
               (case pageTotal q of Some t \<Rightarrow> Some t | None \<Rightarrow> tot) (calls @ [cur])
           = Some (Inr ((acc @ items q) @ concat (map items (qs @ [p])),
                        case List.map_filter pageTotal (qs @ [p]) of
                          [] \<Rightarrow> (case pageTotal q of Some t \<Rightarrow> Some t | None \<Rightarrow> tot)
                        | t # ts \<Rightarrow> Some (last (t # ts))),
                   rest, (calls @ [cur]) @ cursor q # map cursor qs)"
    using Cons.prems by (intro Cons.IH) simp_all
  have tot_eq: "(case List.map_filter pageTotal (qs @ [p]) of
                          [] \<Rightarrow> (case pageTotal q of Some t \<Rightarrow> Some t | None \<Rightarrow> tot)
                        | t # ts \<Rightarrow> Some (last (t # ts)))
      = (case List.map_filter pageTotal ((q # qs) @ [p]) of
                          [] \<Rightarrow> tot | t # ts \<Rightarrow> Some (last (t # ts)))"
    by (cases "pageTotal q"; cases "List.map_filter pageTotal (qs @ [p])")
       (simp_all add: map_filter_Cons)
  show ?case
    unfolding step ih tot_eq by simp
qed

lemma fetchAll_stub:
  assumes "\<forall>q \<in> set qs. cursor q \<noteq> None \<and> items q \<noteq> []"
    and "cursor p = None \<or> items p = []"
  shows "fetchAll stubGateway (qs @ p # rest)
            = Some (Inr (concat (map items (qs @ [p])), lastTotal (qs @ [p])),
                    rest, None # map cursor qs)"
  using fetchAll_loop_stub [OF assms, of rest None "[]" None "[]"]
  by (simp add: fetchAll_def lastTotal_def split: list.splits)

lemma fetchAll_loop_exhausted:
  assumes "\<forall>q \<in> set qs. cursor q \<noteq> None \<and> items q \<noteq> []"
  shows "fetchAll_loop stubGateway qs cur acc tot calls
           = Some (Inl (OtherError ''no page left''), [], calls @ cur # map cursor qs)"
  using assms
proof (induction qs arbitrary: cur acc tot calls)
  case Nil
  show ?case
    by (subst fetchAll_loop.simps) (simp add: stubGateway_def)
next
  case (Cons q qs)
  then show ?case
    by (simp add: fetchAll_loop_next_page)
qed

lemma fetchAll_stub_total: "fetchAll stubGateway ps \<noteq> None"
proof (cases "\<exists>p \<in> set ps. cursor p = None \<or> items p = []")
  case True
  then obtain qs p rest where ps: "ps = qs @ p # rest"
    and p: "cursor p = None \<or> items p = []"
    and qs: "\<forall>q \<in> set qs. \<not> (cursor q = None \<or> items q = [])"
    using split_list_first_prop [of ps "\<lambda>p. cursor p = None \<or> items p = []"] by blast
  from qs have "\<forall>q \<in> set qs. cursor q \<noteq> None \<and> items q \<noteq> []" by simp
  from fetchAll_stub [OF this p] ps show ?thesis by simp
next
  case False
  then have "\<forall>q \<in> set ps. cursor q \<noteq> None \<and> items q \<noteq> []" by simp
  from fetchAll_loop_exhausted [OF this] show ?thesis by (simp add: fetchAll_def)
qed

text \<open>
  C7. On the stub Gateway, for every sequence of pages of which \<open>p\<close> is the first page
  with an absent cursor or an empty item list, \<^verbatim>\<open>fetchAll\<close> returns the concatenation of
  the item lists of the pages up to and including \<open>p\<close>, in page-arrival order, with the
  last total reported; the pages after \<open>p\<close> are left unserved, so no call follows the
  one that returned \<open>p\<close>, and the calls made carry the absent cursor and then the cursor
  of each page before \<open>p\<close>. \<^verbatim>\<open>fetchAll\<close> returns on every finite sequence of pages. For
  the pages with items [1,2], [3], [4,5] and cursors a, b, c followed by a page with an
  absent cursor, and likewise when the third page itself has the absent cursor, the
  result is [1,2,3,4,5] with an absent total.
\<close>

theorem fetchAll_concatenates_pages:
  "(\<forall>qs p rest.
      (\<forall>q \<in> set qs. cursor q \<noteq> None \<and> items q \<noteq> []) \<and> (cursor p = None \<or> items p = [])
      \<longrightarrow> fetchAll stubGateway (qs @ p # rest)
            = Some (Inr (concat (map items (qs @ [p])), lastTotal (qs @ [p])),
                    rest, None # map cursor qs))
   \<and> (\<forall>ps. fetchAll stubGateway ps \<noteq> None)
   \<and> fetchAll stubGateway
        [\<lparr>items = [1, 2], cursor = Some ''a'', pageTotal = None\<rparr>,
         \<lparr>items = [3], cursor = Some ''b'', pageTotal = None\<rparr>,
         \<lparr>items = [4, 5], cursor = Some ''c'', pageTotal = None\<rparr>,
         \<lparr>items = [], cursor = None, pageTotal = None\<rparr>]
       = Some (Inr ([1, 2, 3, 4, 5 :: nat], None), [], [None, Some ''a'', Some ''b'', Some ''c''])
   \<and> fetchAll stubGateway
        [\<lparr>items = [1, 2], cursor = Some ''a'', pageTotal = None\<rparr>,
         \<lparr>items = [3], cursor = Some ''b'', pageTotal = None\<rparr>,
         \<lparr>items = [4, 5], cursor = None, pageTotal = None\<rparr>]
       = Some (Inr ([1, 2, 3, 4, 5 :: nat], None), [], [None, Some ''a'', Some ''b''])"
proof -
  have four: "fetchAll stubGateway
        [\<lparr>items = [1, 2], cursor = Some ''a'', pageTotal = None\<rparr>,
         \<lparr>items = [3], cursor = Some ''b'', pageTotal = None\<rparr>,
         \<lparr>items = [4, 5], cursor = Some ''c'', pageTotal = None\<rparr>,
         \<lparr>items = [], cursor = None, pageTotal = None\<rparr>]
       = Some (Inr ([1, 2, 3, 4, 5 :: nat], None), [], [None, Some ''a'', Some ''b'', Some ''c''])"
    using fetchAll_stub [of "[\<lparr>items = [1, 2 :: nat], cursor = Some ''a'', pageTotal = None\<rparr>,
         \<lparr>items = [3], cursor = Some ''b'', pageTotal = None\<rparr>,
         \<lparr>items = [4, 5], cursor = Some ''c'', pageTotal = None\<rparr>]"
         "\<lparr>items = [], cursor = None, pageTotal = None\<rparr>" "[]"]
    by (simp add: lastTotal_def List.map_filter_def)
  have three: "fetchAll stubGateway
        [\<lparr>items = [1, 2], cursor = Some ''a'', pageTotal = None\<rparr>,
         \<lparr>items = [3], cursor = Some ''b'', pageTotal = None\<rparr>,
         \<lparr>items = [4, 5], cursor = None, pageTotal = None\<rparr>]
       = Some (Inr ([1, 2, 3, 4, 5 :: nat], None), [], [None, Some ''a'', Some ''b''])"
    using fetchAll_stub [of "[\<lparr>items = [1, 2 :: nat], cursor = Some ''a'', pageTotal = None\<rparr>,
         \<lparr>items = [3], cursor = Some ''b'', pageTotal = None\<rparr>]"
         "\<lparr>items = [4, 5], cursor = None, pageTotal = None\<rparr>" "[]"]
    by (simp add: lastTotal_def List.map_filter_def)
  from four three show ?thesis
    by (simp add: fetchAll_stub fetchAll_stub_total)
qed

text \<open>
  C7 at a sequence whose third page has a cursor and no items: the traversal ends there
  with the items [1,2,3] and the total 9 of the second page, and the fourth page is never
  asked for.
\<close>

theorem fetchAll_concatenates_pages_witness:
  "fetchAll stubGateway
        [\<lparr>items = [1, 2], cursor = Some ''a'', pageTotal = None\<rparr>,
         \<lparr>items = [3], cursor = Some ''b'', pageTotal = Some 9\<rparr>,
         \<lparr>items = [], cursor = Some ''c'', pageTotal = None\<rparr>,
         \<lparr>items = [6], cursor = None, pageTotal = Some 1\<rparr>]
       = Some (Inr ([1, 2, 3 :: nat], Some 9),
               [\<lparr>items = [6], cursor = None, pageTotal = Some 1\<rparr>],
               [None, Some ''a'', Some ''b''])"
proof -
  have hyp: "(\<forall>q \<in> set [\<lparr>items = [1, 2 :: nat], cursor = Some ''a'', pageTotal = None\<rparr>,
         \<lparr>items = [3], cursor = Some ''b'', pageTotal = Some 9\<rparr>].
           cursor q \<noteq> None \<and> items q \<noteq> [])
        \<and> (cursor \<lparr>items = [] :: nat list, cursor = Some ''c'', pageTotal = None\<rparr> = None
           \<or> items \<lparr>items = [] :: nat list, cursor = Some ''c'', pageTotal = None\<rparr> = [])"
    by simp
  have "fetchAll stubGateway
         ([\<lparr>items = [1, 2 :: nat], cursor = Some ''a'', pageTotal = None\<rparr>,
           \<lparr>items = [3], cursor = Some ''b'', pageTotal = Some 9\<rparr>]
          @ \<lparr>items = [], cursor = Some ''c'', pageTotal = None\<rparr>
          # [\<lparr>items = [6], cursor = None, pageTotal = Some 1\<rparr>])
        = Some (Inr (concat (map items
                   ([\<lparr>items = [1, 2 :: nat], cursor = Some ''a'', pageTotal = None\<rparr>,
                     \<lparr>items = [3], cursor = Some ''b'', pageTotal = Some 9\<rparr>]
                    @ [\<lparr>items = [], cursor = Some ''c'', pageTotal = None\<rparr>])),
                 lastTotal
                   ([\<lparr>items = [1, 2 :: nat], cursor = Some ''a'', pageTotal = None\<rparr>,
                     \<lparr>items = [3], cursor = Some ''b'', pageTotal = Some 9\<rparr>]
                    @ [\<lparr>items = [], cursor = Some ''c'', pageTotal = None\<rparr>])),
                [\<lparr>items = [6], cursor = None, pageTotal = Some 1\<rparr>],
                None # map cursor
                   [\<lparr>items = [1, 2 :: nat], cursor = Some ''a'', pageTotal = None\<rparr>,
                    \<lparr>items = [3], cursor = Some ''b'', pageTotal = Some 9\<rparr>])"
    using fetchAll_concatenates_pages hyp by blast
  then show ?thesis
    by (simp add: lastTotal_def List.map_filter_def)
qed

end
